theory Spec2Isabelle
  imports Complex_Main
begin

section \<open>Exceptions and results\<close>

text \<open>
  An exception of the Python program is a value. The three classes the source raises
  itself (\<open>ValueError\<close>, \<open>RuntimeError\<close>, \<open>TypeError\<close>) carry their message;
  \<open>AttributeError\<close> is what Python raises on \<open>None.to_string()\<close>; \<open>External\<close> is any
  exception raised inside a collaborating library (pyproj, shapely/GEOS, rasterio, GDAL,
  subprocess, os), named by the string. All of them are subclasses of \<open>Exception\<close>,
  so an \<open>except Exception\<close> clause of the source catches every value of this type.
\<close>

datatype exn =
    ValueError string
  | RuntimeError string
  | TypeError string
  | AttributeError string
  | External string

definition bindE :: "exn + 'a \<Rightarrow> ('a \<Rightarrow> exn + 'b) \<Rightarrow> exn + 'b" where
  "bindE m f = (case m of Inl e \<Rightarrow> Inl e | Inr x \<Rightarrow> f x)"

definition lift :: "string + 'a \<Rightarrow> exn + 'a" where
  "lift r = (case r of Inl name \<Rightarrow> Inl (External name) | Inr x \<Rightarrow> Inr x)"

section \<open>Numbers and strings of the host language\<close>

text \<open>
  Python's \<open>int(x)\<close> on a float truncates towards zero. Floats are modelled by the
  reals: rounding of the double arithmetic is not part of the model.
\<close>

definition py_int :: "real \<Rightarrow> int" where
  "py_int x = (if 0 \<le> x then \<lfloor>x\<rfloor> else \<lceil>x\<rceil>)"

fun str_nat :: "nat \<Rightarrow> string" where
  "str_nat n = (if n < 10 then [''0123456789'' ! n]
                else str_nat (n div 10) @ [''0123456789'' ! (n mod 10)])"

text \<open>The decimal text an f-string gives for an integer.\<close>

definition str_int :: "int \<Rightarrow> string" where
  "str_int i = (if i < 0 then CHR ''-'' # str_nat (nat (- i)) else str_nat (nat i))"

text \<open>
  \<open>range(start, stop, step)\<close>: counting up for a positive step, down for a negative
  one, \<open>ValueError\<close> for step zero.
\<close>

function range_up :: "int \<Rightarrow> int \<Rightarrow> int \<Rightarrow> int list" where
  "range_up i stop step =
     (if 0 < step \<and> i < stop then i # range_up (i + step) stop step else [])"
  by pat_completeness auto
termination
  by (relation "measure (\<lambda>(i, stop, step). nat (stop - i))") auto

function range_down :: "int \<Rightarrow> int \<Rightarrow> int \<Rightarrow> int list" where
  "range_down i stop step =
     (if step < 0 \<and> stop < i then i # range_down (i + step) stop step else [])"
  by pat_completeness auto
termination
  by (relation "measure (\<lambda>(i, stop, step). nat (i - stop))") auto

definition py_range :: "int \<Rightarrow> int \<Rightarrow> int \<Rightarrow> exn + int list" where
  "py_range start stop step =
     (if step = 0 then Inl (ValueError ''range() arg 3 must not be zero'')
      else if 0 < step then Inr (range_up start stop step)
      else Inr (range_down start stop step))"

section \<open>Settings\<close>

text \<open>
  \<open>num_workers = int(cpu_count() - (cpu_count() * 0.20))\<close>, computed once when the
  module is loaded. The detected core count is the argument.
\<close>

definition num_workers :: "int \<Rightarrow> int" where
  "num_workers cpu_count = py_int (of_int cpu_count - of_int cpu_count * 0.20)"

text \<open>
  \<open>multiprocessing.Pool(processes=n)\<close> refuses a pool without workers.
\<close>

definition Pool :: "int \<Rightarrow> exn + unit" where
  "Pool processes =
     (if processes < 1 then Inl (ValueError ''Number of processes must be at least 1'')
      else Inr ())"

section \<open>Data model\<close>

text \<open>
  A geometry is known to the program by its class (\<open>isinstance\<close>) and, for a
  multi-polygon, by its parts (\<open>geom.geoms\<close>). What a single polygon is made of
  belongs to the geometry library: it is the type parameter \<open>'p\<close>.
\<close>

datatype 'p geometry =
    Polygon 'p
  | MultiPolygon "'p list"
  | OtherGeometry string

fun geoms :: "'p geometry \<Rightarrow> 'p geometry list" where
  "geoms (MultiPolygon ps) = map Polygon ps"
| "geoms g = [g]"

datatype crs = CRS (crs_id: string) (is_geographic: bool)

text \<open>What the program passes where a CRS is expected: nothing, a CRS object, or text.\<close>

datatype crs_arg = NoneCRS | CRSObj crs | CRSStr string

record window =
  col_off :: int
  row_off :: int
  width :: int
  height :: int

text \<open>
  An opened raster: its size, its CRS (if it has one) and the values of band 4, the
  alpha band, by row and column.
\<close>

record raster =
  r_width :: int
  r_height :: int
  r_crs :: "string option"
  band4 :: "int \<Rightarrow> int \<Rightarrow> nat"

datatype 'p file_content =
    RasterFile raster
  | GeoJSON "'p geometry list"
  | WarpOutput string string

type_synonym 'p files = "string \<rightharpoonup> 'p file_content"

section \<open>Collaborating libraries\<close>

text \<open>
  The geometry engine (shapely), the coordinate transforms (pyproj) and the
  vectoriser (rasterio.features) are parameters of the model. A call that can raise
  returns the name of the exception on the left. \<open>buffer\<close> takes the distance, the
  resolution (segments per quarter circle) and the \<open>single_sided\<close> flag; the two
  defaults of the library are 16 and \<open>False\<close>. The calls the source makes outside
  any handler and that only compute on a geometry in memory (\<open>is_valid\<close>,
  \<open>is_empty\<close>, \<open>area\<close>, \<open>buffer\<close>, \<open>centroid\<close>, \<open>convex_hull\<close>,
  \<open>shapes\<close>) are taken to return.
\<close>

record 'p engine =
  is_valid :: "'p geometry \<Rightarrow> bool"
  is_empty :: "'p geometry \<Rightarrow> bool"
  area :: "'p geometry \<Rightarrow> real"
  buffer :: "'p geometry \<Rightarrow> real \<Rightarrow> nat \<Rightarrow> bool \<Rightarrow> 'p geometry"
  unary_union :: "'p geometry list \<Rightarrow> string + 'p geometry"
  centroid :: "'p geometry \<Rightarrow> real \<times> real"
  convex_hull :: "'p geometry \<Rightarrow> 'p geometry"
  from_user_input :: "string \<Rightarrow> string + crs"
  from_proj4 :: "string \<Rightarrow> string + crs"
  transform :: "crs \<Rightarrow> crs \<Rightarrow> 'p geometry \<Rightarrow> string + 'p geometry"
  shapes :: "bool list list \<Rightarrow> window \<Rightarrow> ('p geometry \<times> int) list"

text \<open>
  The operating system and GDAL: the name \<open>NamedTemporaryFile\<close> picks, the
  \<open>gdal.Warp\<close> call (destination, source, options) and the \<open>gdalwarp\<close>
  command run by \<open>subprocess.run(cmd, check=True)\<close>. Both warps return their outcome
  and the files they leave behind.
\<close>

record warp_options =
  format :: string
  cutlineDSName :: string
  cropToCutline :: bool
  dstAlpha :: bool
  creationOptions :: "string list"
  warpOptions :: "string list"
  multithread :: bool

record 'p backend =
  NamedTemporaryFile :: "'p files \<Rightarrow> string \<Rightarrow> string"
  gdal_Warp :: "'p files \<Rightarrow> string \<Rightarrow> string \<Rightarrow> warp_options \<Rightarrow> (string + unit) \<times> 'p files"
  subprocess_run :: "'p files \<Rightarrow> string list \<Rightarrow> (string + unit) \<times> 'p files"

definition rasterio_open :: "'p files \<Rightarrow> string \<Rightarrow> exn + raster" where
  "rasterio_open fs path =
     (case fs path of
        Some (RasterFile r) \<Rightarrow> Inr r
      | _ \<Rightarrow> Inl (External ''RasterioIOError''))"

definition os_remove :: "'p files \<Rightarrow> string \<Rightarrow> (exn + unit) \<times> 'p files" where
  "os_remove fs path =
     (case fs path of
        None \<Rightarrow> (Inl (External ''FileNotFoundError''), fs)
      | Some _ \<Rightarrow> (Inr (), fs(path := None)))"

section \<open>The functions of \<open>mosaic_utils/crop_mosaic.py\<close>\<close>

text \<open>
  The printing and timing calls (\<open>step\<close>, \<open>end\<close>, \<open>print\<close>) have no effect on
  results and are left out, with their \<open>step_num\<close> and \<open>total_steps\<close> arguments.
\<close>

subsection \<open>\<open>reproject_geom\<close>\<close>

definition resolve_crs :: "'p engine \<Rightarrow> crs_arg \<Rightarrow> exn + crs" where
  "resolve_crs E a =
     (case a of
        NoneCRS \<Rightarrow> Inl (External ''CRSError'')
      | CRSObj c \<Rightarrow> Inr c
      | CRSStr s \<Rightarrow> lift (from_user_input E s))"

definition reproject_geom ::
  "'p engine \<Rightarrow> 'p geometry \<Rightarrow> crs_arg \<Rightarrow> crs_arg \<Rightarrow> exn + 'p geometry" where
  "reproject_geom E geom src_crs dst_crs =
     (if src_crs = NoneCRS then Inl (ValueError ''source CRS is None, cannot reproject geometry'')
      else bindE (resolve_crs E src_crs) (\<lambda>src.
           bindE (resolve_crs E dst_crs) (\<lambda>dst.
           if src = dst then Inr geom
           else lift (transform E src dst geom))))"

subsection \<open>\<open>ensure_valid_geometry\<close>\<close>

definition ensure_valid_geometry :: "'p engine \<Rightarrow> 'p geometry \<Rightarrow> exn + 'p geometry" where
  "ensure_valid_geometry E geom =
     (case geom of
        Polygon p \<Rightarrow>
          if is_valid E geom \<and> 0 < area E geom then Inr geom
          else Inr (buffer E geom 0 16 False)
      | MultiPolygon ps \<Rightarrow>
          (let polys = filter (\<lambda>p. 0 < area E p) (geoms geom)
           in if polys = []
              then Inl (RuntimeError ''All polygons have zero area after cleanup.'')
              else lift (unary_union E polys))
      | OtherGeometry t \<Rightarrow> Inl (TypeError (''Unsupported geometry type: '' @ t)))"

subsection \<open>\<open>largest_polygon\<close>\<close>

text \<open>
  \<open>max(xs, key=f)\<close> keeps the first element whose key no later element exceeds, and
  raises \<open>ValueError\<close> on an empty sequence.
\<close>

fun max_by :: "('a \<Rightarrow> real) \<Rightarrow> 'a \<Rightarrow> 'a list \<Rightarrow> 'a" where
  "max_by key best [] = best"
| "max_by key best (x # xs) = max_by key (if key best < key x then x else best) xs"

definition py_max :: "('a \<Rightarrow> real) \<Rightarrow> 'a list \<Rightarrow> exn + 'a" where
  "py_max key xs =
     (case xs of
        [] \<Rightarrow> Inl (ValueError ''max() arg is an empty sequence'')
      | x # rest \<Rightarrow> Inr (max_by key x rest))"

definition largest_polygon :: "'p engine \<Rightarrow> 'p geometry \<Rightarrow> exn + 'p geometry" where
  "largest_polygon E geom =
     (case geom of
        MultiPolygon ps \<Rightarrow> py_max (area E) (geoms geom)
      | _ \<Rightarrow> Inr geom)"

subsection \<open>\<open>_shapes_from_tile_alpha\<close>\<close>

definition read_band4 :: "raster \<Rightarrow> window \<Rightarrow> nat list list" where
  "read_band4 src w =
     map (\<lambda>r. map (\<lambda>c. band4 src r c) [col_off w .. col_off w + width w - 1])
         [row_off w .. row_off w + height w - 1]"

definition shapes_from_tile_alpha ::
  "'p engine \<Rightarrow> 'p files \<Rightarrow> string \<times> window \<Rightarrow> exn + 'p geometry list" where
  "shapes_from_tile_alpha E fs args =
     (case args of (path, window) \<Rightarrow>
        bindE (rasterio_open fs path) (\<lambda>src.
          let alpha = read_band4 src window
          in if \<not> list_ex (list_ex (\<lambda>v. v \<noteq> 0)) alpha then Inr []
             else
               let mask = map (map (\<lambda>v. 0 < v)) alpha
               in Inr (map fst (filter (\<lambda>(geom, value). value = 1) (shapes E mask window)))))"

subsection \<open>\<open>raster_to_polygon_parallel\<close>\<close>

text \<open>The list of tiles: the two nested \<open>for\<close> loops over \<open>range(0, height, block_size)\<close>
  and \<open>range(0, width, block_size)\<close>.\<close>

definition make_tiles :: "string \<Rightarrow> int \<Rightarrow> int \<Rightarrow> int \<Rightarrow> exn + (string \<times> window) list" where
  "make_tiles path w h block_size =
     bindE (py_range 0 h block_size) (\<lambda>ys.
     bindE (py_range 0 w block_size) (\<lambda>xs.
       Inr (concat (map (\<lambda>y. map (\<lambda>x.
              (path, \<lparr>col_off = x, row_off = y,
                      width = min block_size (w - x),
                      height = min block_size (h - y)\<rparr>)) xs) ys))))"

text \<open>
  The pool loop. \<open>imap_unordered\<close> hands the results over in the order the workers
  finish; the model takes them in the order of the tiles. A worker's exception ends
  the loop.
\<close>

fun imap_tiles ::
  "'p engine \<Rightarrow> 'p files \<Rightarrow> (string \<times> window) list \<Rightarrow> 'p geometry list \<Rightarrow> exn + 'p geometry list" where
  "imap_tiles E fs [] polys = Inr polys"
| "imap_tiles E fs (t # ts) polys =
     (case shapes_from_tile_alpha E fs t of
        Inl e \<Rightarrow> Inl e
      | Inr result \<Rightarrow> imap_tiles E fs ts (if result \<noteq> [] then polys @ result else polys))"

text \<open>Opening the raster, listing the tiles and running the pool: the polygons found.\<close>

definition extract_polys ::
  "'p engine \<Rightarrow> int \<Rightarrow> 'p files \<Rightarrow> string \<Rightarrow> int \<Rightarrow> exn + 'p geometry list" where
  "extract_polys E nw fs path block_size =
     bindE (rasterio_open fs path) (\<lambda>src.
     bindE (make_tiles path (r_width src) (r_height src) block_size) (\<lambda>tiles.
     bindE (Pool nw) (\<lambda>_.
       imap_tiles E fs tiles [])))"

text \<open>The loop of the final cleaning: what it appends to \<open>cleaned\<close>.\<close>

definition is_poly_or_multi :: "'p geometry \<Rightarrow> bool" where
  "is_poly_or_multi g = (case g of OtherGeometry _ \<Rightarrow> False | _ \<Rightarrow> True)"

fun clean_polys :: "'p engine \<Rightarrow> 'p geometry list \<Rightarrow> 'p geometry list" where
  "clean_polys E [] = []"
| "clean_polys E (p # ps) =
     (if is_empty E p \<or> area E p = 0 then clean_polys E ps
      else
        let p' = (if \<not> is_valid E p then buffer E p 0 16 False else p)
        in if is_poly_or_multi p' \<and> \<not> is_empty E p' then p' # clean_polys E ps
           else clean_polys E ps)"

text \<open>
  The \<open>try\<close>/\<open>except\<close> around the union. The second component lists the arguments of
  the calls of \<open>unary_union\<close> that were made, in order.
\<close>

definition merge_polygons ::
  "'p engine \<Rightarrow> 'p geometry list \<Rightarrow> (exn + 'p geometry) \<times> 'p geometry list list" where
  "merge_polygons E cleaned =
     (case unary_union E cleaned of
        Inr merged \<Rightarrow> (Inr merged, [cleaned])
      | Inl _ \<Rightarrow>
          (let repaired = map (\<lambda>g. buffer E g 0 16 False) cleaned
           in (lift (unary_union E repaired), [cleaned, repaired])))"

text \<open>What \<open>raster_to_polygon_parallel\<close> does with the polygons of the tiles.\<close>

definition clean_and_merge :: "'p engine \<Rightarrow> 'p geometry list \<Rightarrow> exn + 'p geometry" where
  "clean_and_merge E polys =
     (if polys = []
      then Inl (RuntimeError ''No polygons extracted from raster (alpha mask may be empty).'')
      else
        let cleaned = clean_polys E polys
        in if cleaned = [] then Inl (RuntimeError ''Polygon list empty after cleaning.'')
           else fst (merge_polygons E cleaned))"

definition raster_to_polygon_parallel ::
  "'p engine \<Rightarrow> int \<Rightarrow> 'p files \<Rightarrow> string \<Rightarrow> int \<Rightarrow> exn + 'p geometry" where
  "raster_to_polygon_parallel E nw fs path block_size =
     bindE (extract_polys E nw fs path block_size) (clean_and_merge E)"

subsection \<open>\<open>compute_negative_buffer\<close>\<close>

definition utm_zone :: "real \<Rightarrow> int" where
  "utm_zone lon = py_int ((lon + 180) / 6) + 1"

definition utm_proj4 :: "int \<Rightarrow> string" where
  "utm_proj4 zone = ''+proj=utm +zone='' @ str_int zone @ '' +datum=WGS84 +units=m +no_defs''"

text \<open>The choice of the metric CRS: the \<open>if src_crs.is_geographic\<close> statement.\<close>

definition select_metric_crs :: "'p engine \<Rightarrow> crs \<Rightarrow> 'p geometry \<Rightarrow> exn + crs" where
  "select_metric_crs E src geom =
     (if is_geographic src
      then (case centroid E geom of (lon, lat) \<Rightarrow> lift (from_proj4 E (utm_proj4 (utm_zone lon))))
      else Inr src)"

definition buffer_distance :: "real \<Rightarrow> real \<Rightarrow> real" where
  "buffer_distance a threshold_area = (a * threshold_area) / 100"

definition compute_negative_buffer ::
  "'p engine \<Rightarrow> 'p geometry \<Rightarrow> real \<Rightarrow> crs_arg \<Rightarrow> exn + 'p geometry" where
  "compute_negative_buffer E geom threshold_area geom_crs =
     bindE (resolve_crs E geom_crs) (\<lambda>src.
     bindE (select_metric_crs E src geom) (\<lambda>metric_crs.
     bindE (reproject_geom E geom (CRSObj src) (CRSObj metric_crs)) (\<lambda>geom_metric.
       let dist = buffer_distance (area E geom_metric) threshold_area;
           geom_metric_buffered = buffer E geom_metric (- dist) 8 False
       in bindE (reproject_geom E geom_metric_buffered (CRSObj metric_crs) (CRSObj src))
            (ensure_valid_geometry E))))"

subsection \<open>\<open>fast_convex_hull\<close>\<close>

definition fast_convex_hull :: "'p engine \<Rightarrow> 'p geometry \<Rightarrow> exn + 'p geometry" where
  "fast_convex_hull E geom = ensure_valid_geometry E (convex_hull E geom)"

subsection \<open>\<open>geom_to_geojson_path\<close>\<close>

text \<open>
  The geometry that goes into the single feature of the cutline, and the function
  itself, which writes the file and returns its path.
\<close>

definition cutline_geometry ::
  "'p engine \<Rightarrow> 'p geometry \<Rightarrow> crs_arg \<Rightarrow> exn + 'p geometry" where
  "cutline_geometry E geom geom_crs =
     bindE (reproject_geom E geom geom_crs (CRSStr ''EPSG:4326'')) (\<lambda>geom_4326.
     bindE (ensure_valid_geometry E geom_4326) (\<lambda>geom_4326.
       case geom_4326 of
         MultiPolygon ps \<Rightarrow> largest_polygon E geom_4326
       | _ \<Rightarrow> Inr geom_4326))"

definition geom_to_geojson_path ::
  "'p engine \<Rightarrow> 'p backend \<Rightarrow> 'p files \<Rightarrow> 'p geometry \<Rightarrow> crs_arg \<Rightarrow> (exn + string) \<times> 'p files" where
  "geom_to_geojson_path E B fs geom geom_crs =
     (case cutline_geometry E geom geom_crs of
        Inl e \<Rightarrow> (Inl e, fs)
      | Inr geom_4326 \<Rightarrow>
          (let path = NamedTemporaryFile B fs ''.geojson''
           in (Inr path, fs(path \<mapsto> GeoJSON [geom_4326]))))"

subsection \<open>\<open>crop_with_mask\<close>\<close>

definition block_size_output :: int where
  "block_size_output = 512"

definition warp_opts :: "int \<Rightarrow> string \<Rightarrow> warp_options" where
  "warp_opts nw geojson_path =
     \<lparr>format = ''COG'', cutlineDSName = geojson_path, cropToCutline = True, dstAlpha = False,
      creationOptions = [''COG=YES'', ''BIGTIFF=YES'', ''COMPRESS=DEFLATE'',
                         ''BLOCKSIZE='' @ str_int block_size_output,
                         ''NUM_THREADS='' @ str_int nw],
      warpOptions = [''OPTIMIZE_SIZE=TRUE''], multithread = True\<rparr>"

definition gdalwarp_cmd :: "int \<Rightarrow> string \<Rightarrow> string \<Rightarrow> string \<Rightarrow> string list" where
  "gdalwarp_cmd nw geojson_path input_path output_path =
     [''gdalwarp'', ''-cutline'', geojson_path, ''-crop_to_cutline'', ''-of'', ''COG'',
      ''-co'', ''BLOCKSIZE='' @ str_int block_size_output,
      ''-co'', ''COMPRESS=DEFLATE'',
      ''-co'', ''BIGTIFF=YES'',
      ''-co'', ''NUM_THREADS='' @ str_int nw,
      input_path, output_path]"

text \<open>The statements after the warp: \<open>os.remove\<close> with its exception swallowed.\<close>

definition remove_geojson :: "'p files \<Rightarrow> string \<Rightarrow> (exn + unit) \<times> 'p files" where
  "remove_geojson fs geojson_path = (Inr (), snd (os_remove fs geojson_path))"

definition crop_with_mask ::
  "'p engine \<Rightarrow> 'p backend \<Rightarrow> int \<Rightarrow> 'p files \<Rightarrow> string \<Rightarrow> string \<Rightarrow> 'p geometry \<Rightarrow> crs_arg
     \<Rightarrow> (exn + unit) \<times> 'p files" where
  "crop_with_mask E B nw fs input_path output_path geom geom_crs =
     (case geom_to_geojson_path E B fs geom geom_crs of
        (Inl e, fs1) \<Rightarrow> (Inl e, fs1)
      | (Inr geojson_path, fs1) \<Rightarrow>
          (case gdal_Warp B fs1 output_path input_path (warp_opts nw geojson_path) of
             (Inr _, fs2) \<Rightarrow> remove_geojson fs2 geojson_path
           | (Inl e, fs2) \<Rightarrow>
               (case subprocess_run B fs2 (gdalwarp_cmd nw geojson_path input_path output_path) of
                  (Inr _, fs3) \<Rightarrow> remove_geojson fs3 geojson_path
                | (Inl e', fs3) \<Rightarrow> (Inl (External e'), fs3))))"

subsection \<open>\<open>crop_mosaic_by_polygon\<close>\<close>

definition read_raster_crs :: "'p files \<Rightarrow> string \<Rightarrow> exn + string" where
  "read_raster_crs fs input_file =
     bindE (rasterio_open fs input_file) (\<lambda>src.
       case r_crs src of
         None \<Rightarrow> Inl (AttributeError ''to_string'')
       | Some s \<Rightarrow> Inr s)"

text \<open>Steps 1 to 4 of the pipeline, which only read: the hull to crop with.\<close>

definition pipeline_hull ::
  "'p engine \<Rightarrow> int \<Rightarrow> 'p files \<Rightarrow> string \<Rightarrow> real \<Rightarrow> string \<Rightarrow> exn + 'p geometry" where
  "pipeline_hull E nw fs input_file threshold raster_crs =
     bindE (raster_to_polygon_parallel E nw fs input_file 2048) (\<lambda>geom.
     bindE (compute_negative_buffer E geom threshold (CRSStr raster_crs)) (\<lambda>nb.
     bindE (fast_convex_hull E nb) (\<lambda>hull0.
       ensure_valid_geometry E hull0)))"

definition crop_mosaic_by_polygon ::
  "'p engine \<Rightarrow> 'p backend \<Rightarrow> int \<Rightarrow> 'p files \<Rightarrow> string \<Rightarrow> string \<Rightarrow> real
     \<Rightarrow> (exn + unit) \<times> 'p files" where
  "crop_mosaic_by_polygon E B nw fs input_file output_file threshold =
     (case read_raster_crs fs input_file of
        Inl e \<Rightarrow> (Inl e, fs)
      | Inr raster_crs \<Rightarrow>
          (case pipeline_hull E nw fs input_file threshold raster_crs of
             Inl e \<Rightarrow> (Inl e, fs)
           | Inr hull1 \<Rightarrow>
               crop_with_mask E B nw fs input_file output_file hull1 (CRSStr raster_crs)))"

section \<open>Vocabulary of the properties\<close>

text \<open>The pixel in column \<open>c\<close> and row \<open>r\<close> lies in a window.\<close>

definition in_window :: "window \<Rightarrow> int \<Rightarrow> int \<Rightarrow> bool" where
  "in_window w c r =
     (col_off w \<le> c \<and> c < col_off w + width w \<and> row_off w \<le> r \<and> r < row_off w + height w)"

text \<open>The window the loops of \<open>raster_to_polygon_parallel\<close> build at offset \<open>(x, y)\<close>.\<close>

definition tile_window :: "int \<Rightarrow> int \<Rightarrow> int \<Rightarrow> int \<Rightarrow> int \<Rightarrow> window" where
  "tile_window w h bs x y =
     \<lparr>col_off = x, row_off = y, width = min bs (w - x), height = min bs (h - y)\<rparr>"

text \<open>The polygons a geometry consists of.\<close>

fun parts :: "'p geometry \<Rightarrow> 'p list" where
  "parts (Polygon p) = [p]"
| "parts (MultiPolygon ps) = ps"
| "parts (OtherGeometry t) = []"

text \<open>
  An entry of the extracted list that the cleaning does not keep, in the words of the
  specification: it is empty, or has no area, or what is left of it after the repair
  of an invalid entry by a zero-width buffer is empty or no polygon at all.
\<close>

definition dropped_by_cleaning :: "'p engine \<Rightarrow> 'p geometry \<Rightarrow> bool" where
  "dropped_by_cleaning E p =
     (is_empty E p \<or> area E p = 0
      \<or> (let q = (if is_valid E p then p else buffer E p 0 16 False)
          in \<not> is_poly_or_multi q \<or> is_empty E q))"




section \<open>A small geometry engine for concrete runs\<close>

text \<open>
  An instance of the collaborators on which the functions can be run: polygons are
  axis-parallel boxes with a flag that tells whether the box is noded (the union
  raises on a box that is not, and a buffer nodes it), a degree is a hundred metres,
  and the vectoriser returns one unit box per valid pixel.
\<close>

datatype tpoly = TPoly real real real real bool

fun tp_area :: "tpoly \<Rightarrow> real" where
  "tp_area (TPoly a b c d n) = (if a < c \<and> b < d then (c - a) * (d - b) else 0)"

fun tp_ok :: "tpoly \<Rightarrow> bool" where
  "tp_ok (TPoly a b c d n) = (a \<le> c \<and> b \<le> d)"

fun tp_noded :: "tpoly \<Rightarrow> bool" where
  "tp_noded (TPoly a b c d n) = n"

fun tp_offset :: "real \<Rightarrow> tpoly \<Rightarrow> tpoly" where
  "tp_offset delta (TPoly a b c d n) =
     (if min a c - delta \<le> max a c + delta \<and> min b d - delta \<le> max b d + delta
      then TPoly (min a c - delta) (min b d - delta) (max a c + delta) (max b d + delta) True
      else TPoly 0 0 0 0 True)"

fun tp_scale :: "real \<Rightarrow> tpoly \<Rightarrow> tpoly" where
  "tp_scale k (TPoly a b c d n) = TPoly (k * a) (k * b) (k * c) (k * d) n"

fun tp_centroid :: "tpoly \<Rightarrow> real \<times> real" where
  "tp_centroid (TPoly a b c d n) = ((a + c) / 2, (b + d) / 2)"

fun tp_join :: "tpoly \<Rightarrow> tpoly \<Rightarrow> tpoly" where
  "tp_join (TPoly a b c d n) (TPoly a' b' c' d' n') =
     TPoly (min a a') (min b b') (max c c') (max d d') True"

definition tp_shapes :: "bool list list \<Rightarrow> window \<Rightarrow> (tpoly geometry \<times> int) list" where
  "tp_shapes msk w =
     concat (map (\<lambda>(r, row). concat (map (\<lambda>(c, v).
        if v then [(Polygon (TPoly (of_int (col_off w) + of_nat c) (of_int (row_off w) + of_nat r)
                                   (of_int (col_off w) + of_nat c + 1) (of_int (row_off w) + of_nat r + 1)
                                   True), 1)]
        else []) (enumerate 0 row))) (enumerate 0 msk))"

definition test_engine :: "tpoly engine" where
  "test_engine =
     \<lparr>is_valid = (\<lambda>g. list_all tp_ok (parts g)),
      is_empty = (\<lambda>g. list_all (\<lambda>p. tp_area p = 0) (parts g)),
      area = (\<lambda>g. sum_list (map tp_area (parts g))),
      buffer = (\<lambda>g delta resolution single_sided. map_geometry (tp_offset delta) g),
      unary_union = (\<lambda>gs.
         if list_all (\<lambda>g. list_all tp_noded (parts g)) gs
         then Inr (case concat (map parts gs) of [p] \<Rightarrow> Polygon p | ps \<Rightarrow> MultiPolygon ps)
         else Inl ''TopologyException''),
      centroid = (\<lambda>g. case parts g of [] \<Rightarrow> (0, 0) | p # ps \<Rightarrow> tp_centroid p),
      convex_hull = (\<lambda>g. case parts g of [] \<Rightarrow> g | p # ps \<Rightarrow> Polygon (fold tp_join ps p)),
      from_user_input = (\<lambda>s.
         if s = ''EPSG:4326'' then Inr (CRS s True)
         else if s = ''EPSG:32721'' then Inr (CRS s False)
         else Inl ''CRSError''),
      from_proj4 = (\<lambda>s. Inr (CRS s False)),
      transform = (\<lambda>src dst g.
         Inr (map_geometry (tp_scale (if is_geographic src \<and> \<not> is_geographic dst then 100
                                      else if \<not> is_geographic src \<and> is_geographic dst then 1 / 100
                                      else 1)) g)),
      shapes = tp_shapes\<rparr>"

definition failing_backend :: "tpoly backend" where
  "failing_backend =
     \<lparr>NamedTemporaryFile = (\<lambda>fs suffix. ''/tmp/tmpcutline'' @ suffix),
      gdal_Warp = (\<lambda>fs dst src opts. (Inl ''RuntimeError'', fs)),
      subprocess_run = (\<lambda>fs cmd. (Inl ''CalledProcessError'', fs))\<rparr>"

definition working_backend :: "tpoly backend" where
  "working_backend =
     \<lparr>NamedTemporaryFile = (\<lambda>fs suffix. ''/tmp/tmpcutline'' @ suffix),
      gdal_Warp = (\<lambda>fs dst src opts. (Inr (), fs(dst \<mapsto> WarpOutput src (cutlineDSName opts)))),
      subprocess_run = (\<lambda>fs cmd. (Inl ''CalledProcessError'', fs))\<rparr>"

definition unit_square :: "tpoly geometry" where
  "unit_square = Polygon (TPoly 0 0 1 1 True)"

text \<open>A directory with one raster of 3 by 2 pixels, all of them transparent.\<close>

definition transparent_files :: "tpoly files" where
  "transparent_files =
     [''in.tif'' \<mapsto> RasterFile \<lparr>r_width = 3, r_height = 2, r_crs = Some ''EPSG:4326'',
                                  band4 = (\<lambda>r c. 0)\<rparr>]"

text \<open>
  The same engine with a vectoriser that returns one flat box, and a directory with one
  raster of a single opaque pixel.
\<close>

definition sliver_engine :: "tpoly engine" where
  "sliver_engine = test_engine\<lparr>shapes := (\<lambda>msk w. [(Polygon (TPoly 0 0 0 1 True), 1)])\<rparr>"

definition opaque_files :: "tpoly files" where
  "opaque_files =
     [''in.tif'' \<mapsto> RasterFile \<lparr>r_width = 1, r_height = 1, r_crs = Some ''EPSG:4326'',
                                  band4 = (\<lambda>r c. 255)\<rparr>]"

text \<open>
  The same engine with a union that merges boxes into the box that spans them.
\<close>

definition merging_engine :: "tpoly engine" where
  "merging_engine =
     test_engine\<lparr>unary_union := (\<lambda>gs.
        case concat (map parts gs) of
          [] \<Rightarrow> Inl ''GEOSException''
        | p # ps \<Rightarrow> Inr (Polygon (fold tp_join ps p)))\<rparr>"




section \<open>Tiling\<close>

declare range_up.simps [simp del] range_down.simps [simp del]

lemma set_range_up:
  "0 < step \<Longrightarrow> set (range_up i stop step) = {x. i \<le> x \<and> x < stop \<and> step dvd (x - i)}"
proof (induction i stop step rule: range_up.induct)
  case (1 i stop step)
  show ?case
  proof (cases "i < stop")
    case False
    then show ?thesis using 1 by (subst range_up.simps) auto
  next
    case True
    have IH: "set (range_up (i + step) stop step) = {x. i + step \<le> x \<and> x < stop \<and> step dvd (x - (i + step))}"
      using 1 True by simp
    have "{x. i \<le> x \<and> x < stop \<and> step dvd (x - i)} = insert i {x. i + step \<le> x \<and> x < stop \<and> step dvd (x - (i + step))}"
      (is "?L = ?R")
    proof (intro set_eqI iffI)
      fix x assume "x \<in> ?L"
      then have x: "i \<le> x" "x < stop" "step dvd (x - i)" by auto
      show "x \<in> ?R"
      proof (cases "x = i")
        case True then show ?thesis by simp
      next
        case False
        then have "0 < x - i" using x by simp
        then have "step \<le> x - i" using x(3) zdvd_imp_le by blast
        moreover have "step dvd (x - (i + step))"
          using x(3) by (metis diff_diff_eq dvd_diff dvd_refl)
        ultimately show ?thesis using x by simp
      qed
    next
      fix x assume "x \<in> ?R"
      then consider "x = i" | "i + step \<le> x" "x < stop" "step dvd (x - (i + step))" by auto
      then show "x \<in> ?L"
      proof cases
        case 1 then show ?thesis using True by simp
      next
        case 2
        have "x - i = (x - (i + step)) + step" by simp
        then have "step dvd (x - i)" using 2(3) by (metis dvd_add dvd_refl)
        then show ?thesis using 2 \<open>0 < step\<close> by simp
      qed
    qed
    then show ?thesis using True 1(2) IH by (subst range_up.simps) simp
  qed
qed

lemma distinct_range_up: "0 < step \<Longrightarrow> distinct (range_up i stop step)"
proof (induction i stop step rule: range_up.induct)
  case (1 i stop step)
  show ?case
  proof (cases "i < stop")
    case False
    then show ?thesis by (subst range_up.simps) simp
  next
    case True
    have "i \<notin> set (range_up (i + step) stop step)"
      using 1(2) by (simp add: set_range_up)
    then show ?thesis using 1 True by (subst range_up.simps) simp
  qed
qed

lemma tile_start_unique:
  fixes c bs x :: int
  assumes "0 < bs" "bs dvd x" "x \<le> c" "c < x + bs"
  shows "x = c - c mod bs"
proof -
  have "(c - x) mod bs = c - x"
    using assms by (simp add: mod_pos_pos_trivial)
  moreover have "(c - x) mod bs = c mod bs"
    using assms(2) by (metis diff_zero dvd_imp_mod_0 mod_diff_right_eq)
  ultimately show ?thesis by simp
qed

lemma range_up_covers:
  fixes c bs w :: int
  assumes "0 < bs" "0 \<le> c" "c < w"
  shows "\<exists>!x. x \<in> set (range_up 0 w bs) \<and> x \<le> c \<and> c < x + min bs (w - x)"
proof (rule ex1I [where a = "c - c mod bs"])
  have m: "0 \<le> c mod bs" "c mod bs < bs" using assms(1) by simp_all
  have "c mod bs \<le> c" using assms by (simp add: zmod_le_nonneg_dividend)
  moreover have "bs dvd (c - c mod bs)" by (simp add: dvd_minus_mod)
  ultimately show "c - c mod bs \<in> set (range_up 0 w bs) \<and> c - c mod bs \<le> c
      \<and> c < (c - c mod bs) + min bs (w - (c - c mod bs))"
    using assms m by (simp add: set_range_up)
next
  fix x
  assume "x \<in> set (range_up 0 w bs) \<and> x \<le> c \<and> c < x + min bs (w - x)"
  then have "bs dvd x" "x \<le> c" "c < x + bs"
    using assms(1) by (auto simp add: set_range_up min_def split: if_splits)
  then show "x = c - c mod bs" using assms(1) tile_start_unique by blast
qed

lemma distinct_grid:
  assumes "distinct xs" "distinct ys"
    and "\<And>x y x' y'. g x y = g x' y' \<Longrightarrow> x = x' \<and> y = y'"
  shows "distinct (concat (map (\<lambda>y. map (\<lambda>x. g x y) xs) ys))"
  using assms(2)
proof (induction ys)
  case Nil
  then show ?case by simp
next
  case (Cons y ys)
  have "inj_on (\<lambda>x. g x y) (set xs)"
    using assms(3) by (auto simp: inj_on_def)
  then have "distinct (map (\<lambda>x. g x y) xs)"
    using assms(1) by (simp add: distinct_map)
  moreover have "set (map (\<lambda>x. g x y) xs) \<inter> set (concat (map (\<lambda>y. map (\<lambda>x. g x y) xs) ys)) = {}"
    using Cons.prems assms(3) by fastforce
  ultimately show ?case using Cons by simp
qed

lemma make_tiles_pos:
  "0 < bs \<Longrightarrow> make_tiles path w h bs =
     Inr (concat (map (\<lambda>y. map (\<lambda>x. (path, tile_window w h bs x y)) (range_up 0 w bs))
                      (range_up 0 h bs)))"
  by (simp add: make_tiles_def py_range_def bindE_def tile_window_def)

text \<open>
  Claim C2. For positive raster width, height and tile size the list of tiles is a
  partition of the pixel grid: no tile occurs twice, every pixel of the raster lies in
  exactly one tile, and every tile is non-empty, at most one tile size wide and high, and
  ends inside the raster (the last row and column are clipped, not padded).
\<close>

theorem tiles_partition:
  assumes "0 < w" "0 < h" "0 < block_size"
  shows "\<exists>tiles. make_tiles path w h block_size = Inr tiles
     \<and> distinct tiles
     \<and> (\<forall>c r. 0 \<le> c \<and> c < w \<and> 0 \<le> r \<and> r < h
            \<longrightarrow> (\<exists>!t. t \<in> set tiles \<and> in_window (snd t) c r))
     \<and> (\<forall>t \<in> set tiles. fst t = path
            \<and> 0 \<le> col_off (snd t) \<and> 0 < width (snd t) \<and> width (snd t) \<le> block_size
            \<and> col_off (snd t) + width (snd t) \<le> w
            \<and> 0 \<le> row_off (snd t) \<and> 0 < height (snd t) \<and> height (snd t) \<le> block_size
            \<and> row_off (snd t) + height (snd t) \<le> h)"
proof -
  let ?xs = "range_up 0 w block_size" and ?ys = "range_up 0 h block_size"
  let ?g = "\<lambda>x y. (path, tile_window w h block_size x y)"
  let ?tiles = "concat (map (\<lambda>y. map (\<lambda>x. ?g x y) ?xs) ?ys)"
  have mem: "t \<in> set ?tiles \<longleftrightarrow> (\<exists>x \<in> set ?xs. \<exists>y \<in> set ?ys. t = ?g x y)" for t
    by auto
  have eq: "make_tiles path w h block_size = Inr ?tiles"
    using assms(3) by (rule make_tiles_pos)
  have d: "distinct ?tiles"
    by (rule distinct_grid)
       (simp_all add: distinct_range_up assms(3) tile_window_def)
  have cover: "\<exists>!t. t \<in> set ?tiles \<and> in_window (snd t) c r"
    if "0 \<le> c \<and> c < w \<and> 0 \<le> r \<and> r < h" for c r
  proof -
    have "\<exists>!x. x \<in> set ?xs \<and> x \<le> c \<and> c < x + min block_size (w - x)"
      using range_up_covers [of block_size c w] assms(3) that by simp
    then obtain x where x: "x \<in> set ?xs" "x \<le> c" "c < x + min block_size (w - x)"
      and ux: "\<And>x'. x' \<in> set ?xs \<and> x' \<le> c \<and> c < x' + min block_size (w - x') \<Longrightarrow> x' = x"
      unfolding Ex1_def by blast
    have "\<exists>!y. y \<in> set ?ys \<and> y \<le> r \<and> r < y + min block_size (h - y)"
      using range_up_covers [of block_size r h] assms(3) that by simp
    then obtain y where y: "y \<in> set ?ys" "y \<le> r" "r < y + min block_size (h - y)"
      and uy: "\<And>y'. y' \<in> set ?ys \<and> y' \<le> r \<and> r < y' + min block_size (h - y') \<Longrightarrow> y' = y"
      unfolding Ex1_def by blast
    show ?thesis
    proof (rule ex1I [where a = "?g x y"])
      show "?g x y \<in> set ?tiles \<and> in_window (snd (?g x y)) c r"
        using x y unfolding mem by (auto simp: in_window_def tile_window_def)
    next
      fix t
      assume t: "t \<in> set ?tiles \<and> in_window (snd t) c r"
      then obtain x' y' where t': "x' \<in> set ?xs" "y' \<in> set ?ys" "t = ?g x' y'"
        unfolding mem by blast
      have "x' = x"
        using t t' by (intro ux) (simp add: in_window_def tile_window_def)
      moreover have "y' = y"
        using t t' by (intro uy) (simp add: in_window_def tile_window_def)
      ultimately show "t = ?g x y" using t'(3) by simp
    qed
  qed
  have bounds: "fst t = path
            \<and> 0 \<le> col_off (snd t) \<and> 0 < width (snd t) \<and> width (snd t) \<le> block_size
            \<and> col_off (snd t) + width (snd t) \<le> w
            \<and> 0 \<le> row_off (snd t) \<and> 0 < height (snd t) \<and> height (snd t) \<le> block_size
            \<and> row_off (snd t) + height (snd t) \<le> h" if tin: "t \<in> set ?tiles" for t
  proof -
    obtain x y where "x \<in> set ?xs" "y \<in> set ?ys" "t = ?g x y"
      using tin unfolding mem by blast
    then show ?thesis
      using assms(3) by (auto simp add: set_range_up tile_window_def min_def)
  qed
  show ?thesis
    using eq d cover bounds by blast
qed

text \<open>The partition of a raster of 5 by 3 pixels in tiles of 2.\<close>

theorem tiles_partition_witness:
  "make_tiles ''m.tif'' 5 3 2 = Inr
     [(''m.tif'', \<lparr>col_off = 0, row_off = 0, width = 2, height = 2\<rparr>),
      (''m.tif'', \<lparr>col_off = 2, row_off = 0, width = 2, height = 2\<rparr>),
      (''m.tif'', \<lparr>col_off = 4, row_off = 0, width = 1, height = 2\<rparr>),
      (''m.tif'', \<lparr>col_off = 0, row_off = 2, width = 2, height = 1\<rparr>),
      (''m.tif'', \<lparr>col_off = 2, row_off = 2, width = 2, height = 1\<rparr>),
      (''m.tif'', \<lparr>col_off = 4, row_off = 2, width = 1, height = 1\<rparr>)]
   \<and> (\<exists>tiles. make_tiles ''m.tif'' 5 3 2 = Inr tiles
     \<and> distinct tiles
     \<and> (\<forall>c r. 0 \<le> c \<and> c < 5 \<and> 0 \<le> r \<and> r < 3
            \<longrightarrow> (\<exists>!t. t \<in> set tiles \<and> in_window (snd t) c r))
     \<and> (\<forall>t \<in> set tiles. fst t = ''m.tif''
            \<and> 0 \<le> col_off (snd t) \<and> 0 < width (snd t) \<and> width (snd t) \<le> 2
            \<and> col_off (snd t) + width (snd t) \<le> 5
            \<and> 0 \<le> row_off (snd t) \<and> 0 < height (snd t) \<and> height (snd t) \<le> 2
            \<and> row_off (snd t) + height (snd t) \<le> 3))"
proof
  show "make_tiles ''m.tif'' 5 3 2 = Inr
     [(''m.tif'', \<lparr>col_off = 0, row_off = 0, width = 2, height = 2\<rparr>),
      (''m.tif'', \<lparr>col_off = 2, row_off = 0, width = 2, height = 2\<rparr>),
      (''m.tif'', \<lparr>col_off = 4, row_off = 0, width = 1, height = 2\<rparr>),
      (''m.tif'', \<lparr>col_off = 0, row_off = 2, width = 2, height = 1\<rparr>),
      (''m.tif'', \<lparr>col_off = 2, row_off = 2, width = 2, height = 1\<rparr>),
      (''m.tif'', \<lparr>col_off = 4, row_off = 2, width = 1, height = 1\<rparr>)]"
    by (simp add: make_tiles_def py_range_def bindE_def range_up.simps)
next
  have "(0::int) < 5" "(0::int) < 3" "(0::int) < 2" by simp_all
  from tiles_partition [OF this, of "''m.tif''"]
  show "\<exists>tiles. make_tiles ''m.tif'' 5 3 2 = Inr tiles
     \<and> distinct tiles
     \<and> (\<forall>c r. 0 \<le> c \<and> c < 5 \<and> 0 \<le> r \<and> r < 3
            \<longrightarrow> (\<exists>!t. t \<in> set tiles \<and> in_window (snd t) c r))
     \<and> (\<forall>t \<in> set tiles. fst t = ''m.tif''
            \<and> 0 \<le> col_off (snd t) \<and> 0 < width (snd t) \<and> width (snd t) \<le> 2
            \<and> col_off (snd t) + width (snd t) \<le> 5
            \<and> 0 \<le> row_off (snd t) \<and> 0 < height (snd t) \<and> height (snd t) \<le> 2
            \<and> row_off (snd t) + height (snd t) \<le> 3)" .
qed

section \<open>Worker pool\<close>

text \<open>
  Claim C9. On a machine with a single core the number of workers is
  \<open>int(1 - 0.2) = 0\<close>, not at least 1, and the pool of
  \<open>raster_to_polygon_parallel\<close> cannot be made with it.
\<close>

theorem num_workers_single_core:
  "num_workers 1 = 0 \<and> Pool (num_workers 1) = Inl (ValueError ''Number of processes must be at least 1'')"
  by (simp add: num_workers_def py_int_def Pool_def)

text \<open>From two cores on the number of workers is at least 1.\<close>

lemma num_workers_ge2: "2 \<le> n \<Longrightarrow> 1 \<le> num_workers n"
  unfolding num_workers_def py_int_def by (auto simp: le_floor_iff)

section \<open>UTM zone\<close>

text \<open>
  Claim C3, as stated: at longitude -60 the formula \<open>int((lon + 180) / 6) + 1\<close>
  gives zone 21, not zone 18.
\<close>

theorem utm_zone_minus_60_counterexample:
  "utm_zone (- 60) = 21 \<and> utm_zone (- 60) \<noteq> 18"
  by (simp add: utm_zone_def py_int_def)

text \<open>
  Claim C3, amended. For a region in a geographic CRS whose centroid has longitude -60,
  the metric CRS is the one \<open>CRS.from_proj4\<close> makes of the UTM projection with
  zone 21.
\<close>

theorem utm_zone_selection:
  assumes "is_geographic src" and "centroid E geom = (- 60, lat)"
  shows "select_metric_crs E src geom =
           lift (from_proj4 E ''+proj=utm +zone=21 +datum=WGS84 +units=m +no_defs'')"
  using assms by (simp add: select_metric_crs_def utm_zone_def py_int_def utm_proj4_def str_int_def)

text \<open>A box around longitude -60 in EPSG:4326.\<close>

theorem utm_zone_selection_witness:
  "is_geographic (CRS ''EPSG:4326'' True)
   \<and> centroid test_engine (Polygon (TPoly (- 61) (- 4) (- 59) (- 2) True)) = (- 60, - 3)
   \<and> select_metric_crs test_engine (CRS ''EPSG:4326'' True) (Polygon (TPoly (- 61) (- 4) (- 59) (- 2) True))
       = Inr (CRS ''+proj=utm +zone=21 +datum=WGS84 +units=m +no_defs'' False)"
proof -
  have g: "is_geographic (CRS ''EPSG:4326'' True)" by simp
  have c: "centroid test_engine (Polygon (TPoly (- 61) (- 4) (- 59) (- 2) True)) = (- 60, - 3)"
    by (simp add: test_engine_def)
  show ?thesis
    using g c utm_zone_selection [OF g c] by (simp add: test_engine_def lift_def)
qed

section \<open>Geometry repair\<close>

lemma no_positive_part:
  "filter (\<lambda>p. 0 < area E p) (map Polygon ps) = [] \<longleftrightarrow> (\<forall>q \<in> set ps. area E (Polygon q) \<le> 0)"
  by (auto simp: filter_empty_conv)

lemma lift_cases:
  "lift r = Inl e \<Longrightarrow> \<exists>name. e = External name"
  by (auto simp: lift_def split: sum.splits)

text \<open>
  Claim C10. \<open>ensure_valid_geometry\<close> returns for every single polygon: the
  polygon itself when it is valid and has positive area, its zero-width buffer otherwise.
  It raises \<open>RuntimeError\<close> exactly for a multi-polygon none of whose parts has
  positive area, and \<open>TypeError\<close> exactly for a geometry that is neither a polygon
  nor a multi-polygon. The only other exception is the one the union of the library
  raises on the parts of positive area.
\<close>

theorem ensure_valid_geometry_outcomes:
  "ensure_valid_geometry E (Polygon p) =
       Inr (if is_valid E (Polygon p) \<and> 0 < area E (Polygon p) then Polygon p
            else buffer E (Polygon p) 0 16 False)
   \<and> (ensure_valid_geometry E g = Inl (RuntimeError msg) \<longleftrightarrow>
        (\<exists>ps. g = MultiPolygon ps \<and> (\<forall>q \<in> set ps. area E (Polygon q) \<le> 0))
        \<and> msg = ''All polygons have zero area after cleanup.'')
   \<and> (ensure_valid_geometry E g = Inl (TypeError msg) \<longleftrightarrow>
        (\<exists>t. g = OtherGeometry t \<and> msg = ''Unsupported geometry type: '' @ t))
   \<and> (ensure_valid_geometry E g = Inl (External msg) \<longleftrightarrow>
        (\<exists>ps. g = MultiPolygon ps \<and> (\<exists>q \<in> set ps. 0 < area E (Polygon q))
           \<and> unary_union E (filter (\<lambda>p. 0 < area E p) (geoms g)) = Inl msg))
   \<and> ensure_valid_geometry E g \<noteq> Inl (ValueError msg)
   \<and> ensure_valid_geometry E g \<noteq> Inl (AttributeError msg)"
proof (cases g)
  case (Polygon x)
  then show ?thesis by (simp add: ensure_valid_geometry_def)
next
  case (MultiPolygon ps)
  show ?thesis
  proof (cases "\<forall>q \<in> set ps. area E (Polygon q) \<le> 0")
    case True
    then have "filter (\<lambda>p. 0 < area E p) (map Polygon ps) = []"
      by (simp add: no_positive_part)
    then show ?thesis
      using MultiPolygon True by (auto simp add: ensure_valid_geometry_def)
  next
    case False
    then have "filter (\<lambda>p. 0 < area E p) (map Polygon ps) \<noteq> []"
      by (simp add: no_positive_part)
    moreover have "\<exists>q \<in> set ps. 0 < area E (Polygon q)"
      using False by (auto simp: not_le)
    ultimately show ?thesis
      using MultiPolygon False
      by (simp add: ensure_valid_geometry_def lift_def split: sum.splits)
  qed
next
  case (OtherGeometry t)
  then show ?thesis by (auto simp add: ensure_valid_geometry_def)
qed

text \<open>
  A valid box, a box with its corners swapped, and a multi-polygon of one flat box.
\<close>

theorem ensure_valid_geometry_outcomes_witness:
  "ensure_valid_geometry test_engine (Polygon (TPoly 0 0 1 1 True)) = Inr (Polygon (TPoly 0 0 1 1 True))
   \<and> ensure_valid_geometry test_engine (Polygon (TPoly 1 0 0 1 True)) = Inr (Polygon (TPoly 0 0 1 1 True))
   \<and> ensure_valid_geometry test_engine (MultiPolygon [TPoly 0 0 0 1 True])
        = Inl (RuntimeError ''All polygons have zero area after cleanup.'')"
  using ensure_valid_geometry_outcomes [of test_engine "TPoly 0 0 1 1 True"
          "MultiPolygon [TPoly 0 0 0 1 True]" "''All polygons have zero area after cleanup.''"]
        ensure_valid_geometry_outcomes [of test_engine "TPoly 1 0 0 1 True"]
  by (simp add: test_engine_def)

section \<open>Union of the polygons\<close>

text \<open>
  Claim C7. When the union of the cleaned polygons raises, \<open>unary_union\<close> is
  called once more, on the zero-width buffers of all of them, and the outcome of this
  second call is the outcome of the merge: the first exception is not passed on, and
  there is no third call.
\<close>

theorem union_retry_once:
  assumes "clean_polys E polys = cleaned" and "cleaned \<noteq> []"
    and "unary_union E cleaned = Inl e"
  shows "merge_polygons E cleaned =
           (lift (unary_union E (map (\<lambda>g. buffer E g 0 16 False) cleaned)),
            [cleaned, map (\<lambda>g. buffer E g 0 16 False) cleaned])
       \<and> clean_and_merge E polys = lift (unary_union E (map (\<lambda>g. buffer E g 0 16 False) cleaned))"
proof -
  have m: "merge_polygons E cleaned =
           (lift (unary_union E (map (\<lambda>g. buffer E g 0 16 False) cleaned)),
            [cleaned, map (\<lambda>g. buffer E g 0 16 False) cleaned])"
    using assms(3) by (simp add: merge_polygons_def Let_def)
  have "polys \<noteq> []" using assms(1,2) by auto
  then have "clean_and_merge E polys = fst (merge_polygons E cleaned)"
    using assms(1,2) by (simp add: clean_and_merge_def Let_def)
  then show ?thesis using m by simp
qed

text \<open>
  Two boxes that are not noded: the first union raises, the second succeeds.
\<close>

theorem union_retry_once_witness:
  "clean_polys test_engine [Polygon (TPoly 0 0 1 1 False), Polygon (TPoly 2 0 3 1 False)]
      = [Polygon (TPoly 0 0 1 1 False), Polygon (TPoly 2 0 3 1 False)]
   \<and> unary_union test_engine [Polygon (TPoly 0 0 1 1 False), Polygon (TPoly 2 0 3 1 False)]
      = Inl ''TopologyException''
   \<and> merge_polygons test_engine [Polygon (TPoly 0 0 1 1 False), Polygon (TPoly 2 0 3 1 False)]
      = (Inr (MultiPolygon [TPoly 0 0 1 1 True, TPoly 2 0 3 1 True]),
         [[Polygon (TPoly 0 0 1 1 False), Polygon (TPoly 2 0 3 1 False)],
          [Polygon (TPoly 0 0 1 1 True), Polygon (TPoly 2 0 3 1 True)]])
   \<and> clean_and_merge test_engine [Polygon (TPoly 0 0 1 1 False), Polygon (TPoly 2 0 3 1 False)]
      = Inr (MultiPolygon [TPoly 0 0 1 1 True, TPoly 2 0 3 1 True])"
proof -
  let ?polys = "[Polygon (TPoly 0 0 1 1 False), Polygon (TPoly 2 0 3 1 False)]"
  have c: "clean_polys test_engine ?polys = ?polys"
    by (simp add: test_engine_def is_poly_or_multi_def)
  have n: "?polys \<noteq> []" by simp
  have u: "unary_union test_engine ?polys = Inl ''TopologyException''"
    by (simp add: test_engine_def)
  show ?thesis
    using c u union_retry_once [OF c n u] by (simp add: test_engine_def lift_def)
qed

section \<open>Negative buffer\<close>

lemma reproject_geom_objects:
  "reproject_geom E g (CRSObj a) (CRSObj b) = (if a = b then Inr g else lift (transform E a b g))"
  by (simp add: reproject_geom_def resolve_crs_def bindE_def)

text \<open>
  Claim C1. With the source CRS resolved and the metric CRS selected, the result of
  \<open>compute_negative_buffer\<close> is: the region transformed into the metric CRS (left as
  it is when the two CRS are equal), buffered by minus \<open>(area * threshold) / 100\<close>
  with the area taken in the metric CRS, resolution 8 and \<open>single_sided\<close> off,
  transformed back into the source CRS, and then passed to \<open>ensure_valid_geometry\<close>.
\<close>

theorem negative_buffer_steps:
  assumes "resolve_crs E geom_crs = Inr src" and "select_metric_crs E src geom = Inr metric"
  shows "compute_negative_buffer E geom threshold geom_crs =
     bindE (if src = metric then Inr geom else lift (transform E src metric geom)) (\<lambda>geom_metric.
     bindE (if metric = src
            then Inr (buffer E geom_metric (- ((area E geom_metric * threshold) / 100)) 8 False)
            else lift (transform E metric src
                   (buffer E geom_metric (- ((area E geom_metric * threshold) / 100)) 8 False)))
       (ensure_valid_geometry E))"
  using assms
  by (simp add: compute_negative_buffer_def reproject_geom_objects buffer_distance_def bindE_def Let_def)

text \<open>
  A box of two by two degrees around longitude -60 and a threshold of 0.01: the buffer
  distance is 4 metres.
\<close>

theorem negative_buffer_steps_witness:
  "resolve_crs test_engine (CRSStr ''EPSG:4326'') = Inr (CRS ''EPSG:4326'' True)
   \<and> select_metric_crs test_engine (CRS ''EPSG:4326'' True) (Polygon (TPoly (- 61) (- 4) (- 59) (- 2) True))
        = Inr (CRS ''+proj=utm +zone=21 +datum=WGS84 +units=m +no_defs'' False)
   \<and> compute_negative_buffer test_engine (Polygon (TPoly (- 61) (- 4) (- 59) (- 2) True)) (1 / 100)
        (CRSStr ''EPSG:4326'')
        = Inr (Polygon (TPoly (- 6096 / 100) (- 396 / 100) (- 5904 / 100) (- 204 / 100) True))"
proof -
  let ?g = "Polygon (TPoly (- 61) (- 4) (- 59) (- 2) True)"
  have r: "resolve_crs test_engine (CRSStr ''EPSG:4326'') = Inr (CRS ''EPSG:4326'' True)"
    by (simp add: resolve_crs_def test_engine_def lift_def)
  have m: "select_metric_crs test_engine (CRS ''EPSG:4326'' True) ?g
             = Inr (CRS ''+proj=utm +zone=21 +datum=WGS84 +units=m +no_defs'' False)"
    by (simp add: select_metric_crs_def test_engine_def lift_def utm_zone_def py_int_def
                  utm_proj4_def str_int_def)
  show ?thesis
    using r m negative_buffer_steps [OF r m, of "1 / 100"]
    by (simp add: test_engine_def lift_def bindE_def ensure_valid_geometry_def)
qed

section \<open>Area after the negative buffer\<close>




















section \<open>Cutline\<close>

lemma max_by_mem: "max_by key b xs \<in> set (b # xs)"
  by (induction xs arbitrary: b) auto

lemma max_by_start: "key b \<le> key (max_by key b xs)"
proof (induction xs arbitrary: b)
  case Nil
  then show ?case by simp
next
  case (Cons x xs)
  have "key b \<le> key (if key b < key x then x else b)" by simp
  also have "\<dots> \<le> key (max_by key (if key b < key x then x else b) xs)"
    by (rule Cons.IH)
  finally show ?case by simp
qed

lemma max_by_ge: "x \<in> set (b # xs) \<Longrightarrow> key x \<le> key (max_by key b xs)"
proof (induction xs arbitrary: b)
  case Nil
  then show ?case by simp
next
  case (Cons y ys)
  let ?b = "if key b < key y then y else b"
  consider "x = b" | "x = y" | "x \<in> set ys" using Cons.prems by auto
  then show ?case
  proof cases
    case 1
    have "key b \<le> key ?b" by simp
    also have "\<dots> \<le> key (max_by key ?b ys)" by (rule max_by_start)
    finally show ?thesis using 1 by simp
  next
    case 2
    have "key y \<le> key ?b" by simp
    also have "\<dots> \<le> key (max_by key ?b ys)" by (rule max_by_start)
    finally show ?thesis using 2 by simp
  next
    case 3
    then have "key x \<le> key (max_by key ?b ys)" by (intro Cons.IH) simp
    then show ?thesis by simp
  qed
qed

lemma largest_polygon_multi:
  assumes "largest_polygon E (MultiPolygon qs) = Inr g"
  shows "\<exists>q \<in> set qs. g = Polygon q \<and> (\<forall>q' \<in> set qs. area E (Polygon q') \<le> area E (Polygon q))"
proof (cases qs)
  case Nil
  then show ?thesis using assms by (simp add: largest_polygon_def py_max_def)
next
  case (Cons q0 rest)
  then have g: "g = max_by (area E) (Polygon q0) (map Polygon rest)"
    using assms by (simp add: largest_polygon_def py_max_def)
  have "g \<in> set (Polygon q0 # map Polygon rest)"
    unfolding g by (rule max_by_mem)
  then obtain q where q: "q \<in> set qs" "g = Polygon q" using Cons by auto
  have "area E (Polygon q') \<le> area E g" if "q' \<in> set qs" for q'
  proof -
    have "Polygon q' \<in> set (Polygon q0 # map Polygon rest)" using that Cons by auto
    then show ?thesis unfolding g by (rule max_by_ge)
  qed
  then show ?thesis using q by auto
qed

lemma cutline_geometry_steps:
  assumes "cutline_geometry E geom geom_crs = Inr g"
  shows "\<exists>r v. reproject_geom E geom geom_crs (CRSStr ''EPSG:4326'') = Inr r
      \<and> ensure_valid_geometry E r = Inr v
      \<and> (case v of MultiPolygon qs \<Rightarrow> largest_polygon E v = Inr g | _ \<Rightarrow> g = v)"
  using assms
  by (auto simp add: cutline_geometry_def bindE_def split: sum.splits geometry.splits)

text \<open>
  Claim C8, as stated: the region is repaired before it is tested for a multi-polygon,
  and the repair unions the parts. For a multi-polygon of two overlapping boxes of
  area 2 the feature written is the merged box of area 3, which is no component of the
  reprojected region.
\<close>

theorem cutline_merged_counterexample:
  "reproject_geom merging_engine (MultiPolygon [TPoly 0 0 2 1 True, TPoly 1 0 3 1 True])
       (CRSStr ''EPSG:4326'') (CRSStr ''EPSG:4326'')
     = Inr (MultiPolygon [TPoly 0 0 2 1 True, TPoly 1 0 3 1 True])
   \<and> geom_to_geojson_path merging_engine working_backend Map.empty
       (MultiPolygon [TPoly 0 0 2 1 True, TPoly 1 0 3 1 True]) (CRSStr ''EPSG:4326'')
     = (Inr ''/tmp/tmpcutline.geojson'',
        [''/tmp/tmpcutline.geojson'' \<mapsto> GeoJSON [Polygon (TPoly 0 0 3 1 True)]])
   \<and> Polygon (TPoly 0 0 3 1 True) \<notin> set (geoms (MultiPolygon [TPoly 0 0 2 1 True, TPoly 1 0 3 1 True]))
   \<and> area merging_engine (Polygon (TPoly 0 0 3 1 True)) = 3
   \<and> area merging_engine (Polygon (TPoly 0 0 2 1 True)) = 2
   \<and> area merging_engine (Polygon (TPoly 1 0 3 1 True)) = 2"
  by (simp add: geom_to_geojson_path_def cutline_geometry_def reproject_geom_def resolve_crs_def
        bindE_def lift_def ensure_valid_geometry_def merging_engine_def test_engine_def
        working_backend_def Let_def)

text \<open>
  Claim C8, amended. When \<open>geom_to_geojson_path\<close> returns a path, the file at this
  path holds one feature; its geometry comes from the region reprojected to EPSG:4326
  and then repaired by \<open>ensure_valid_geometry\<close>, and is never a multi-polygon: if the
  repaired region is a multi-polygon it is reduced to a part of largest area, otherwise
  it is written as it is.
\<close>

theorem cutline_single_feature:
  assumes "geom_to_geojson_path E B fs geom geom_crs = (Inr path, fs')"
  shows "\<exists>r v g. reproject_geom E geom geom_crs (CRSStr ''EPSG:4326'') = Inr r
      \<and> ensure_valid_geometry E r = Inr v
      \<and> fs' = fs(path \<mapsto> GeoJSON [g])
      \<and> (\<forall>qs. g \<noteq> MultiPolygon qs)
      \<and> (\<forall>qs. v = MultiPolygon qs \<longrightarrow>
            (\<exists>q \<in> set qs. g = Polygon q \<and> (\<forall>q' \<in> set qs. area E (Polygon q') \<le> area E (Polygon q))))
      \<and> ((\<forall>qs. v \<noteq> MultiPolygon qs) \<longrightarrow> g = v)"
proof -
  obtain g where g: "cutline_geometry E geom geom_crs = Inr g"
    and fs': "fs' = fs(path \<mapsto> GeoJSON [g])"
    using assms by (auto simp add: geom_to_geojson_path_def Let_def split: sum.splits)
  obtain r v where r: "reproject_geom E geom geom_crs (CRSStr ''EPSG:4326'') = Inr r"
    and v: "ensure_valid_geometry E r = Inr v"
    and sel: "case v of MultiPolygon qs \<Rightarrow> largest_polygon E v = Inr g | _ \<Rightarrow> g = v"
    using cutline_geometry_steps [OF g] by blast
  have multi: "\<exists>q \<in> set qs. g = Polygon q \<and> (\<forall>q' \<in> set qs. area E (Polygon q') \<le> area E (Polygon q))"
    if "v = MultiPolygon qs" for qs
    using sel that largest_polygon_multi by fastforce
  have single: "g = v" if "\<forall>qs. v \<noteq> MultiPolygon qs"
    using sel that by (cases v) auto
  have simple: "g \<noteq> MultiPolygon qs" for qs
  proof (cases "\<exists>qs'. v = MultiPolygon qs'")
    case True
    then show ?thesis using multi by auto
  next
    case False
    then show ?thesis using single by auto
  qed
  show ?thesis
    using r v fs' simple multi single by blast
qed

text \<open>
  A region of three boxes in a projected CRS, one of them flat.
\<close>

theorem cutline_single_feature_witness:
  "geom_to_geojson_path test_engine working_backend Map.empty
      (MultiPolygon [TPoly 0 0 100 100 True, TPoly 200 0 500 200 True, TPoly 600 0 600 100 True])
      (CRSStr ''EPSG:32721'')
    = (Inr ''/tmp/tmpcutline.geojson'',
       [''/tmp/tmpcutline.geojson'' \<mapsto> GeoJSON [Polygon (TPoly 2 0 5 2 True)]])
   \<and> (\<exists>r v g. reproject_geom test_engine
          (MultiPolygon [TPoly 0 0 100 100 True, TPoly 200 0 500 200 True, TPoly 600 0 600 100 True])
          (CRSStr ''EPSG:32721'') (CRSStr ''EPSG:4326'') = Inr r
      \<and> ensure_valid_geometry test_engine r = Inr v
      \<and> [''/tmp/tmpcutline.geojson'' \<mapsto> GeoJSON [Polygon (TPoly 2 0 5 2 True)]]
          = Map.empty(''/tmp/tmpcutline.geojson'' \<mapsto> GeoJSON [g])
      \<and> (\<forall>qs. g \<noteq> MultiPolygon qs)
      \<and> (\<forall>qs. v = MultiPolygon qs \<longrightarrow>
            (\<exists>q \<in> set qs. g = Polygon q
                \<and> (\<forall>q' \<in> set qs. area test_engine (Polygon q') \<le> area test_engine (Polygon q))))
      \<and> ((\<forall>qs. v \<noteq> MultiPolygon qs) \<longrightarrow> g = v))"
proof -
  let ?geom = "MultiPolygon [TPoly 0 0 100 100 True, TPoly 200 0 500 200 True, TPoly 600 0 600 100 True]"
  let ?r = "MultiPolygon [TPoly 0 0 1 1 True, TPoly 2 0 5 2 True, TPoly 6 0 6 1 True]"
  let ?v = "MultiPolygon [TPoly 0 0 1 1 True, TPoly 2 0 5 2 True]"
  let ?fs = "[''/tmp/tmpcutline.geojson'' \<mapsto> GeoJSON [Polygon (TPoly 2 0 5 2 True)]]"
  have r: "reproject_geom test_engine ?geom (CRSStr ''EPSG:32721'') (CRSStr ''EPSG:4326'') = Inr ?r"
    by (simp add: reproject_geom_def resolve_crs_def bindE_def lift_def test_engine_def)
  have v: "ensure_valid_geometry test_engine ?r = Inr ?v"
    by (simp add: ensure_valid_geometry_def lift_def test_engine_def)
  have l: "largest_polygon test_engine ?v = Inr (Polygon (TPoly 2 0 5 2 True))"
    by (simp add: largest_polygon_def py_max_def test_engine_def)
  have run: "geom_to_geojson_path test_engine working_backend Map.empty ?geom (CRSStr ''EPSG:32721'')
               = (Inr ''/tmp/tmpcutline.geojson'', ?fs)"
    by (simp add: geom_to_geojson_path_def cutline_geometry_def bindE_def r v l working_backend_def Let_def)
  show ?thesis
  proof (rule conjI)
    show "geom_to_geojson_path test_engine working_backend Map.empty ?geom (CRSStr ''EPSG:32721'')
               = (Inr ''/tmp/tmpcutline.geojson'', ?fs)"
      by (rule run)
  qed (rule cutline_single_feature [OF run])
qed

section \<open>Extraction without polygons\<close>

lemma shapes_from_tile_transparent:
  assumes "rasterio_open fs path = Inr src" and "\<forall>r c. band4 src r c = 0"
  shows "shapes_from_tile_alpha E fs (path, w) = Inr []"
  using assms
  by (simp add: shapes_from_tile_alpha_def bindE_def read_band4_def list_ex_iff)

lemma imap_tiles_transparent:
  assumes "rasterio_open fs path = Inr src" and "\<forall>r c. band4 src r c = 0"
    and "\<forall>t \<in> set tiles. fst t = path"
  shows "imap_tiles E fs tiles [] = Inr []"
  using assms(3)
proof (induction tiles)
  case Nil
  then show ?case by simp
next
  case (Cons t ts)
  obtain w where t: "t = (path, w)" using Cons.prems by (cases t) auto
  have "shapes_from_tile_alpha E fs t = Inr []"
    unfolding t using assms(1,2) by (rule shapes_from_tile_transparent)
  then show ?case using Cons by simp
qed

lemma make_tiles_path:
  "make_tiles path w h bs = Inr ts \<Longrightarrow> \<forall>t \<in> set ts. fst t = path"
  by (auto simp add: make_tiles_def py_range_def bindE_def split: if_splits)

lemma extract_polys_transparent:
  assumes "extract_polys E nw fs path bs = Inr polys"
    and "rasterio_open fs path = Inr src" and "\<forall>r c. band4 src r c = 0"
  shows "polys = []"
proof -
  obtain tiles where tiles: "make_tiles path (r_width src) (r_height src) bs = Inr tiles"
    and run: "imap_tiles E fs tiles [] = Inr polys"
    using assms(1,2)
    by (auto simp add: extract_polys_def bindE_def split: sum.splits)
  have "imap_tiles E fs tiles [] = Inr []"
    using assms(2,3) make_tiles_path [OF tiles] by (rule imap_tiles_transparent)
  then show ?thesis using run by simp
qed

text \<open>
  The cleaning keeps nothing exactly when every entry is one it does not keep, the
  union raises no \<open>RuntimeError\<close>, and so the two messages of the stage tell the
  two cases apart.
\<close>

lemma clean_polys_empty_iff:
  "clean_polys E polys = [] \<longleftrightarrow> (\<forall>p \<in> set polys. dropped_by_cleaning E p)"
  by (induction polys) (auto simp add: dropped_by_cleaning_def Let_def)

lemma merge_polygons_no_RuntimeError:
  "fst (merge_polygons E cleaned) \<noteq> Inl (RuntimeError msg)"
  by (auto simp add: merge_polygons_def lift_def Let_def split: sum.splits)

lemma clean_and_merge_errors:
  "(clean_and_merge E polys = Inl (RuntimeError ''No polygons extracted from raster (alpha mask may be empty).'')
      \<longleftrightarrow> polys = [])
   \<and> (clean_and_merge E polys = Inl (RuntimeError ''Polygon list empty after cleaning.'')
      \<longleftrightarrow> polys \<noteq> [] \<and> (\<forall>p \<in> set polys. dropped_by_cleaning E p))"
proof (cases "polys = []")
  case True
  then show ?thesis by (simp add: clean_and_merge_def)
next
  case ne: False
  show ?thesis
  proof (cases "clean_polys E polys = []")
    case True
    then show ?thesis
      using ne clean_polys_empty_iff [of E polys] by (simp add: clean_and_merge_def)
  next
    case False
    then show ?thesis
      using ne clean_polys_empty_iff [of E polys] merge_polygons_no_RuntimeError [of E "clean_polys E polys"]
      by (simp add: clean_and_merge_def Let_def)
  qed
qed

text \<open>
  Claim C5. For the polygons extracted from the tiles, \<open>raster_to_polygon_parallel\<close>
  raises \<open>RuntimeError\<close> "No polygons extracted" exactly when the list is empty, and
  \<open>RuntimeError\<close> "Polygon list empty after cleaning" exactly when the list is not
  empty and the cleaning keeps none of its entries; in particular it raises when every
  entry is empty or has no area. In both cases \<open>crop_mosaic_by_polygon\<close>, which
  extracts with tiles of 2048 pixels, ends with an exception and the files as they
  were: no output raster is written. A raster whose alpha band is zero everywhere has
  no extracted polygon.
\<close>

theorem no_polygons_no_output:
  assumes "extract_polys E nw fs input_file block_size = Inr polys"
  shows "(raster_to_polygon_parallel E nw fs input_file block_size
            = Inl (RuntimeError ''No polygons extracted from raster (alpha mask may be empty).'')
          \<longleftrightarrow> polys = [])
       \<and> (raster_to_polygon_parallel E nw fs input_file block_size
            = Inl (RuntimeError ''Polygon list empty after cleaning.'')
          \<longleftrightarrow> polys \<noteq> [] \<and> (\<forall>p \<in> set polys. dropped_by_cleaning E p))
       \<and> ((\<forall>p \<in> set polys. is_empty E p \<or> area E p = 0) \<longrightarrow>
            (\<exists>msg. raster_to_polygon_parallel E nw fs input_file block_size = Inl (RuntimeError msg)))
       \<and> ((\<forall>p \<in> set polys. dropped_by_cleaning E p) \<and> block_size = 2048 \<longrightarrow>
            (\<exists>e. crop_mosaic_by_polygon E B nw fs input_file output_file threshold = (Inl e, fs)))
       \<and> (\<forall>src. rasterio_open fs input_file = Inr src \<and> (\<forall>r c. band4 src r c = 0) \<longrightarrow> polys = [])"
proof -
  have stage: "raster_to_polygon_parallel E nw fs input_file block_size = clean_and_merge E polys"
    using assms by (simp add: raster_to_polygon_parallel_def bindE_def)
  note errs = clean_and_merge_errors [of E polys]
  have raised: "\<exists>msg. clean_and_merge E polys = Inl (RuntimeError msg)"
    if d: "\<forall>p \<in> set polys. dropped_by_cleaning E p"
  proof (cases "polys = []")
    case True
    then show ?thesis using errs by blast
  next
    case False
    then show ?thesis using errs d by blast
  qed
  have degenerate: "\<exists>msg. clean_and_merge E polys = Inl (RuntimeError msg)"
    if z: "\<forall>p \<in> set polys. is_empty E p \<or> area E p = 0"
  proof -
    have "\<forall>p \<in> set polys. dropped_by_cleaning E p"
      using z by (auto simp add: dropped_by_cleaning_def)
    then show ?thesis by (rule raised)
  qed
  have pipeline: "\<exists>e. crop_mosaic_by_polygon E B nw fs input_file output_file threshold = (Inl e, fs)"
    if d: "(\<forall>p \<in> set polys. dropped_by_cleaning E p) \<and> block_size = 2048"
  proof (cases "read_raster_crs fs input_file")
    case (Inl e)
    then show ?thesis by (simp add: crop_mosaic_by_polygon_def)
  next
    case (Inr raster_crs)
    obtain msg where "raster_to_polygon_parallel E nw fs input_file 2048 = Inl (RuntimeError msg)"
      using raised d stage by auto
    then have "pipeline_hull E nw fs input_file threshold raster_crs = Inl (RuntimeError msg)"
      by (simp add: pipeline_hull_def bindE_def)
    then show ?thesis using Inr by (simp add: crop_mosaic_by_polygon_def)
  qed
  have transparent: "polys = []"
    if "rasterio_open fs input_file = Inr src \<and> (\<forall>r c. band4 src r c = 0)" for src
    using assms that extract_polys_transparent by blast
  show ?thesis
    unfolding stage using errs degenerate pipeline transparent by blast
qed

text \<open>
  A raster of 3 by 2 fully transparent pixels, and a raster of one opaque pixel whose
  only polygon is flat.
\<close>

theorem no_polygons_no_output_witness:
  "extract_polys test_engine 1 transparent_files ''in.tif'' 2048 = Inr []
   \<and> raster_to_polygon_parallel test_engine 1 transparent_files ''in.tif'' 2048
       = Inl (RuntimeError ''No polygons extracted from raster (alpha mask may be empty).'')
   \<and> (\<exists>e. crop_mosaic_by_polygon test_engine working_backend 1 transparent_files ''in.tif'' ''out.tif'' (5 / 1000)
            = (Inl e, transparent_files))
   \<and> extract_polys sliver_engine 1 opaque_files ''in.tif'' 2048 = Inr [Polygon (TPoly 0 0 0 1 True)]
   \<and> area sliver_engine (Polygon (TPoly 0 0 0 1 True)) = 0
   \<and> raster_to_polygon_parallel sliver_engine 1 opaque_files ''in.tif'' 2048
       = Inl (RuntimeError ''Polygon list empty after cleaning.'')
   \<and> (\<exists>e. crop_mosaic_by_polygon sliver_engine working_backend 1 opaque_files ''in.tif'' ''out.tif'' (5 / 1000)
            = (Inl e, opaque_files))"
proof -
  have o: "rasterio_open transparent_files ''in.tif''
             = Inr \<lparr>r_width = 3, r_height = 2, r_crs = Some ''EPSG:4326'', band4 = (\<lambda>r c. 0)\<rparr>"
    by (simp add: rasterio_open_def transparent_files_def)
  have t: "make_tiles ''in.tif'' 3 2 2048
             = Inr [(''in.tif'', \<lparr>col_off = 0, row_off = 0, width = 3, height = 2\<rparr>)]"
    by (simp add: make_tiles_def py_range_def bindE_def range_up.simps)
  have s: "shapes_from_tile_alpha test_engine transparent_files
             (''in.tif'', \<lparr>col_off = 0, row_off = 0, width = 3, height = 2\<rparr>) = Inr []"
    by (rule shapes_from_tile_transparent [OF o]) simp
  have x: "extract_polys test_engine 1 transparent_files ''in.tif'' 2048 = Inr []"
    by (simp add: extract_polys_def bindE_def o t s Pool_def)
  have o': "rasterio_open opaque_files ''in.tif''
             = Inr \<lparr>r_width = 1, r_height = 1, r_crs = Some ''EPSG:4326'', band4 = (\<lambda>r c. 255)\<rparr>"
    by (simp add: rasterio_open_def opaque_files_def)
  have t': "make_tiles ''in.tif'' 1 1 2048
             = Inr [(''in.tif'', \<lparr>col_off = 0, row_off = 0, width = 1, height = 1\<rparr>)]"
    by (simp add: make_tiles_def py_range_def bindE_def range_up.simps)
  have s': "shapes_from_tile_alpha sliver_engine opaque_files
             (''in.tif'', \<lparr>col_off = 0, row_off = 0, width = 1, height = 1\<rparr>)
             = Inr [Polygon (TPoly 0 0 0 1 True)]"
    by (simp add: shapes_from_tile_alpha_def bindE_def o' read_band4_def sliver_engine_def
                  test_engine_def)
  have x': "extract_polys sliver_engine 1 opaque_files ''in.tif'' 2048 = Inr [Polygon (TPoly 0 0 0 1 True)]"
    by (simp add: extract_polys_def bindE_def o' t' s' Pool_def)
  have a: "area sliver_engine (Polygon (TPoly 0 0 0 1 True)) = 0"
    by (simp add: sliver_engine_def test_engine_def)
  have d: "dropped_by_cleaning sliver_engine (Polygon (TPoly 0 0 0 1 True))"
    using a by (simp add: dropped_by_cleaning_def)
  show ?thesis
    using x x' a d
      no_polygons_no_output [OF x, of working_backend "''out.tif''" "5 / 1000"]
      no_polygons_no_output [OF x', of working_backend "''out.tif''" "5 / 1000"]
    by simp
qed

section \<open>Removal of the cutline file\<close>

text \<open>
  The path of \<open>crop_with_mask\<close> on which both warps fail returns from inside the
  \<open>except\<close> clause: the files are those the failed command left, and
  \<open>os.remove\<close> is not reached.
\<close>

lemma crop_with_mask_both_fail:
  assumes "geom_to_geojson_path E B fs geom geom_crs = (Inr geojson_path, fs1)"
    and "gdal_Warp B fs1 output_path input_path (warp_opts nw geojson_path) = (Inl e1, fs2)"
    and "subprocess_run B fs2 (gdalwarp_cmd nw geojson_path input_path output_path) = (Inl e2, fs3)"
  shows "crop_with_mask E B nw fs input_path output_path geom geom_crs = (Inl (External e2), fs3)"
  using assms by (simp add: crop_with_mask_def)

text \<open>On the other paths the file is removed, if the warp left it in place.\<close>

lemma crop_with_mask_warp_ok:
  assumes "geom_to_geojson_path E B fs geom geom_crs = (Inr geojson_path, fs1)"
    and "gdal_Warp B fs1 output_path input_path (warp_opts nw geojson_path) = (Inr u, fs2)"
  shows "crop_with_mask E B nw fs input_path output_path geom geom_crs
           = (Inr (), fs2(geojson_path := None))"
  using assms
  by (cases "fs2 geojson_path")
     (simp_all add: crop_with_mask_def remove_geojson_def os_remove_def fun_upd_idem)

lemma unit_square_cutline:
  "geom_to_geojson_path test_engine B fs unit_square (CRSStr ''EPSG:4326'')
     = (Inr (NamedTemporaryFile B fs ''.geojson''),
        fs(NamedTemporaryFile B fs ''.geojson'' \<mapsto> GeoJSON [unit_square]))"
  by (simp add: geom_to_geojson_path_def cutline_geometry_def
        reproject_geom_def resolve_crs_def bindE_def lift_def ensure_valid_geometry_def
        unit_square_def test_engine_def Let_def)

text \<open>
  Claim C4. When \<open>gdal.Warp\<close> and the \<open>gdalwarp\<close> command both fail,
  \<open>crop_with_mask\<close> ends with the exception of the command and the cutline file is
  still there; when the warp succeeds the file is removed.
\<close>

theorem cutline_left_after_failed_warps:
  "crop_with_mask test_engine failing_backend 1 transparent_files ''in.tif'' ''out.tif''
       unit_square (CRSStr ''EPSG:4326'')
     = (Inl (External ''CalledProcessError''),
        transparent_files(''/tmp/tmpcutline.geojson'' \<mapsto> GeoJSON [unit_square]))
   \<and> snd (crop_with_mask test_engine working_backend 1 transparent_files ''in.tif'' ''out.tif''
       unit_square (CRSStr ''EPSG:4326'')) ''/tmp/tmpcutline.geojson'' = None"
proof
  show "crop_with_mask test_engine failing_backend 1 transparent_files ''in.tif'' ''out.tif''
       unit_square (CRSStr ''EPSG:4326'')
     = (Inl (External ''CalledProcessError''),
        transparent_files(''/tmp/tmpcutline.geojson'' \<mapsto> GeoJSON [unit_square]))"
    by (simp add: crop_with_mask_def unit_square_cutline failing_backend_def)
next
  show "snd (crop_with_mask test_engine working_backend 1 transparent_files ''in.tif'' ''out.tif''
       unit_square (CRSStr ''EPSG:4326'')) ''/tmp/tmpcutline.geojson'' = None"
    by (simp add: crop_with_mask_def unit_square_cutline working_backend_def
          remove_geojson_def os_remove_def)
qed

end
